theory Spec2Isabelle
  imports Complex_Main "HOL-Library.Word"
begin

unbundle bit_operations_syntax

section \<open>Python values, exceptions and remote outcomes\<close>

text \<open>
  The entities of \<^verbatim>\<open>custom_components/nimly_pro\<close> mirror Zigbee cluster attributes.
  A raw attribute value, as the cluster hands it to the entity, is a Python value:
  an integer, \<^verbatim>\<open>None\<close>, or a string.  (Floats are not delivered by the door-lock and
  OTA attributes read here and are left out.)
\<close>

datatype raw = RInt int | RNone | RStr string

text \<open>Python exceptions that are not \<^verbatim>\<open>ZigbeeException\<close> and so leave the method.\<close>

datatype error = ValueError | TypeError | IndexError | OverflowError | AttributeError

text \<open>
  \<^verbatim>\<open>await cluster.read_attributes([...])\<close> either raises \<^verbatim>\<open>ZigbeeException\<close> or
  returns a tuple whose component 0 is the dictionary of the attributes read.
  \<^verbatim>\<open>await cluster.write_attributes({...})\<close> and the cluster commands either raise
  \<^verbatim>\<open>ZigbeeException\<close> or return.
\<close>

datatype read_outcome = ReadFault | ReadOk "string \<rightharpoonup> raw"

datatype write_outcome = WriteFault | WriteOk

text \<open>
  What a method does to the outside: the remote calls it issues and the states it
  publishes with \<^verbatim>\<open>async_write_ha_state()\<close> (the snapshot of the entity at that moment).
\<close>

datatype 's effect =
    ReadAttributes "string list"
  | WriteAttributes "(int \<times> int) list"
  | LockDoor
  | UnlockDoor
  | WriteHaState 's

text \<open>The result of a method: the entity afterwards, what it did, and the exception it
  raised to its caller, if any.\<close>

record 's outcome =
  entity_after :: 's
  effects :: "'s effect list"
  raised :: "error option"

section \<open>const.py\<close>

definition DOORLOCK_CLUSTER_ID :: string where "DOORLOCK_CLUSTER_ID = ''0x0101''"
definition ATTR_LOCK_STATE :: string where "ATTR_LOCK_STATE = ''0x0000''"
definition ATTR_LED_SETTINGS :: string where "ATTR_LED_SETTINGS = ''0x0022''"
definition ATTR_SOUND_VOLUME :: string where "ATTR_SOUND_VOLUME = ''0x0024''"
definition ATTR_DOOR_STATE :: string where "ATTR_DOOR_STATE = ''0x0003''"
definition ATTR_CURRENT_FILE_VERSION :: string where "ATTR_CURRENT_FILE_VERSION = ''0x0002''"
definition ATTR_KEYPAD_OPERATION_EVENT_MASK :: string where
  "ATTR_KEYPAD_OPERATION_EVENT_MASK = ''0x0041''"
definition ATTR_MANUAL_OPERATION_EVENT_MASK :: string where
  "ATTR_MANUAL_OPERATION_EVENT_MASK = ''0x0043''"
definition ATTR_RF_OPERATION_EVENT_MASK :: string where
  "ATTR_RF_OPERATION_EVENT_MASK = ''0x0042''"
definition ATTR_AUTO_RELOCK_TIME :: string where "ATTR_AUTO_RELOCK_TIME = ''0x0023''"

definition EVENT_TYPE_RF_UNLOCK :: string where "EVENT_TYPE_RF_UNLOCK = ''rf_unlock''"
definition EVENT_TYPE_AUTO_LOCK :: string where "EVENT_TYPE_AUTO_LOCK = ''auto_lock''"

text \<open>\<^verbatim>\<open>LED_SETTINGS_OPTIONS\<close>: a dict literal, kept in insertion order.\<close>

definition LED_SETTINGS_OPTIONS :: "(int \<times> string) list" where
  "LED_SETTINGS_OPTIONS = [(0, ''Off''), (1, ''Low''), (2, ''Medium''), (3, ''High'')]"

definition DEFAULT_AUTO_RELOCK_TIME :: int where "DEFAULT_AUTO_RELOCK_TIME = 30"

text \<open>\<^verbatim>\<open>homeassistant.const\<close>: the two lock states the lock entity stores.\<close>

definition STATE_LOCKED :: string where "STATE_LOCKED = ''locked''"
definition STATE_UNLOCKED :: string where "STATE_UNLOCKED = ''unlocked''"

section \<open>Python built-ins used by the entities\<close>

text \<open>\<^verbatim>\<open>int(s, 16)\<close> on the attribute constants: an optional \<^verbatim>\<open>0x\<close> prefix and then
  hexadecimal digits; \<^verbatim>\<open>None\<close> stands for Python's \<^verbatim>\<open>ValueError\<close>.\<close>

definition hex_digits :: "(char \<times> int) list" where
  "hex_digits =
     [(CHR ''0'', 0), (CHR ''1'', 1), (CHR ''2'', 2), (CHR ''3'', 3), (CHR ''4'', 4),
      (CHR ''5'', 5), (CHR ''6'', 6), (CHR ''7'', 7), (CHR ''8'', 8), (CHR ''9'', 9),
      (CHR ''a'', 10), (CHR ''b'', 11), (CHR ''c'', 12), (CHR ''d'', 13), (CHR ''e'', 14),
      (CHR ''f'', 15), (CHR ''A'', 10), (CHR ''B'', 11), (CHR ''C'', 12), (CHR ''D'', 13),
      (CHR ''E'', 14), (CHR ''F'', 15)]"

fun hex_value :: "int \<Rightarrow> string \<Rightarrow> int option" where
  "hex_value acc [] = Some acc"
| "hex_value acc (c # cs) =
     (case map_of hex_digits c of
        None \<Rightarrow> None
      | Some d \<Rightarrow> hex_value (16 * acc + d) cs)"

fun int16 :: "string \<Rightarrow> int option" where
  "int16 [] = None"
| "int16 (c # cs) =
     (if c = CHR ''0'' \<and> cs \<noteq> [] \<and> hd cs = CHR ''x'' \<and> tl cs \<noteq> []
      then hex_value 0 (tl cs)
      else hex_value 0 (c # cs))"

text \<open>\<^verbatim>\<open>str(n)\<close> for an integer: decimal digits, a minus sign for negatives.\<close>

definition digit_char :: "nat \<Rightarrow> char" where
  "digit_char d = ''0123456789'' ! d"

function str_nat :: "nat \<Rightarrow> string" where
  "str_nat n = (if n < 10 then [digit_char n] else str_nat (n div 10) @ [digit_char (n mod 10)])"
  by pat_completeness auto
termination
  by (relation "measure id") auto

declare str_nat.simps [simp del]

definition str_int :: "int \<Rightarrow> string" where
  "str_int i = (if i < 0 then CHR ''-'' # str_nat (nat (- i)) else str_nat (nat i))"

text \<open>\<^verbatim>\<open>str(v)\<close> for a raw value.\<close>

fun py_str :: "raw \<Rightarrow> string" where
  "py_str (RInt i) = str_int i"
| "py_str RNone = ''None''"
| "py_str (RStr s) = s"

text \<open>\<^verbatim>\<open>xs.index(x)\<close>: the first position of \<^verbatim>\<open>x\<close>, or \<^verbatim>\<open>ValueError\<close>.\<close>

fun py_index :: "'a list \<Rightarrow> 'a \<Rightarrow> error + int" where
  "py_index [] x = Inl ValueError"
| "py_index (y # ys) x =
     (if y = x then Inr 0
      else (case py_index ys x of Inl e \<Rightarrow> Inl e | Inr i \<Rightarrow> Inr (i + 1)))"

text \<open>\<^verbatim>\<open>xs[i]\<close>: positions \<open>0 .. len - 1\<close> from the front, \<open>-len .. -1\<close> from the back,
  anything else raises \<^verbatim>\<open>IndexError\<close>.\<close>

definition py_getitem :: "'a list \<Rightarrow> int \<Rightarrow> error + 'a" where
  "py_getitem xs i =
     (if 0 \<le> i \<and> i < int (length xs) then Inr (xs ! nat i)
      else if i < 0 \<and> - int (length xs) \<le> i then Inr (xs ! nat (int (length xs) + i))
      else Inl IndexError)"

text \<open>\<^verbatim>\<open>list(d.values())\<close> of a dict in insertion order.\<close>

definition dict_values :: "('k \<times> 'v) list \<Rightarrow> 'v list" where
  "dict_values d = map snd d"

section \<open>sensor.py: the firmware version sensor\<close>

record firmware_sensor =
  fw_native_value :: string
  fw_available :: bool

definition NimlyProFirmwareSensor_init :: firmware_sensor where
  "NimlyProFirmwareSensor_init = \<lparr>fw_native_value = ''Unknown'', fw_available = True\<rparr>"

text \<open>Lines 154--161 of \<^verbatim>\<open>_update_firmware_version\<close>: the display form of the version.\<close>

definition format_version :: "raw \<Rightarrow> string" where
  "format_version version =
     (case version of
        RInt v \<Rightarrow>
          (let major = (drop_bit 24 v) AND 255;
               minor = (drop_bit 16 v) AND 255;
               patch = (drop_bit 8 v) AND 255;
               build = v AND 255
           in str_int major @ ''.'' @ str_int minor @ ''.'' @ str_int patch @ ''.''
              @ str_int build)
      | _ \<Rightarrow> py_str version)"

definition update_firmware_version ::
  "read_outcome \<Rightarrow> firmware_sensor \<Rightarrow> firmware_sensor outcome" where
  "update_firmware_version r s =
     (case r of
        ReadFault \<Rightarrow>
          (let s' = s\<lparr>fw_available := False\<rparr>
           in \<lparr>entity_after = s',
               effects = [ReadAttributes [ATTR_CURRENT_FILE_VERSION], WriteHaState s'],
               raised = None\<rparr>)
      | ReadOk result \<Rightarrow>
          (let s' = (case result ATTR_CURRENT_FILE_VERSION of
                       None \<Rightarrow> s
                     | Some version \<Rightarrow>
                         s\<lparr>fw_native_value := format_version version, fw_available := True\<rparr>)
           in \<lparr>entity_after = s',
               effects = [ReadAttributes [ATTR_CURRENT_FILE_VERSION], WriteHaState s'],
               raised = None\<rparr>))"

section \<open>binary_sensor.py: the door state sensor\<close>

definition DOOR_STATE_OPEN :: int where "DOOR_STATE_OPEN = 0"
definition DOOR_STATE_CLOSED :: int where "DOOR_STATE_CLOSED = 1"

record door_sensor =
  door_is_on :: "bool option"
  door_available :: bool

definition NimlyProDoorStateSensor_init :: door_sensor where
  "NimlyProDoorStateSensor_init = \<lparr>door_is_on = None, door_available = True\<rparr>"

definition update_door_state :: "read_outcome \<Rightarrow> door_sensor \<Rightarrow> door_sensor outcome" where
  "update_door_state r s =
     (case r of
        ReadFault \<Rightarrow>
          (let s' = s\<lparr>door_available := False\<rparr>
           in \<lparr>entity_after = s',
               effects = [ReadAttributes [ATTR_DOOR_STATE], WriteHaState s'],
               raised = None\<rparr>)
      | ReadOk result \<Rightarrow>
          (let s' = (case result ATTR_DOOR_STATE of
                       None \<Rightarrow> s
                     | Some door_state \<Rightarrow>
                         s\<lparr>door_is_on := Some (door_state = RInt DOOR_STATE_OPEN),
                           door_available := True\<rparr>)
           in \<lparr>entity_after = s',
               effects = [ReadAttributes [ATTR_DOOR_STATE], WriteHaState s'],
               raised = None\<rparr>))"

definition door_attribute_updated :: "int \<Rightarrow> raw \<Rightarrow> door_sensor \<Rightarrow> door_sensor outcome" where
  "door_attribute_updated attrid v s =
     (if attrid = the (int16 ATTR_DOOR_STATE)
      then (let s' = s\<lparr>door_is_on := Some (v = RInt DOOR_STATE_OPEN)\<rparr>
            in \<lparr>entity_after = s', effects = [WriteHaState s'], raised = None\<rparr>)
      else \<lparr>entity_after = s, effects = [], raised = None\<rparr>)"

section \<open>lock.py: the lock entity\<close>

record lock_entity =
  lock_state :: "string option"
  lock_available :: bool
  last_event :: "string option"
  last_event_type :: "string option"
  last_event_user :: "string option"
  last_event_time :: "string option"

definition NimlyProLock_init :: lock_entity where
  "NimlyProLock_init =
     \<lparr>lock_state = None, lock_available = True, last_event = None, last_event_type = None,
      last_event_user = None, last_event_time = None\<rparr>"

definition is_locked :: "lock_entity \<Rightarrow> bool" where
  "is_locked s = (lock_state s = Some STATE_LOCKED)"

definition async_lock :: "write_outcome \<Rightarrow> lock_entity \<Rightarrow> lock_entity outcome" where
  "async_lock w s =
     (case w of
        WriteOk \<Rightarrow>
          (let s' = s\<lparr>lock_state := Some STATE_LOCKED\<rparr>
           in \<lparr>entity_after = s', effects = [LockDoor, WriteHaState s'], raised = None\<rparr>)
      | WriteFault \<Rightarrow> \<lparr>entity_after = s, effects = [LockDoor], raised = None\<rparr>)"

text \<open>\<^verbatim>\<open>now\<close> is the text of \<^verbatim>\<open>dt_util.now().isoformat()\<close> at the call.\<close>

definition async_unlock :: "write_outcome \<Rightarrow> string \<Rightarrow> lock_entity \<Rightarrow> lock_entity outcome" where
  "async_unlock w now s =
     (case w of
        WriteOk \<Rightarrow>
          (let s' = s\<lparr>lock_state := Some STATE_UNLOCKED,
                       last_event_type := Some EVENT_TYPE_RF_UNLOCK,
                       last_event_user := Some ''Home Assistant'',
                       last_event_time := Some now\<rparr>
           in \<lparr>entity_after = s', effects = [UnlockDoor, WriteHaState s'], raised = None\<rparr>)
      | WriteFault \<Rightarrow> \<lparr>entity_after = s, effects = [UnlockDoor], raised = None\<rparr>)"

text \<open>\<^verbatim>\<open>_update_event_data\<close> reads the three event masks and drops the answer; a
  \<^verbatim>\<open>ZigbeeException\<close> is caught inside it.\<close>

definition update_event_data :: "read_outcome \<Rightarrow> lock_entity \<Rightarrow> lock_entity outcome" where
  "update_event_data r s =
     \<lparr>entity_after = s,
      effects = [ReadAttributes [ATTR_KEYPAD_OPERATION_EVENT_MASK,
                                 ATTR_MANUAL_OPERATION_EVENT_MASK,
                                 ATTR_RF_OPERATION_EVENT_MASK]],
      raised = None\<rparr>"

text \<open>\<^verbatim>\<open>_update_lock_state\<close>: \<^verbatim>\<open>r\<close> answers the read of the lock state,
  \<^verbatim>\<open>r_ev\<close> the read of the event masks that follows when the first read returned.\<close>

definition update_lock_state ::
  "read_outcome \<Rightarrow> read_outcome \<Rightarrow> lock_entity \<Rightarrow> lock_entity outcome" where
  "update_lock_state r r_ev s =
     (case r of
        ReadFault \<Rightarrow>
          (let s' = s\<lparr>lock_available := False\<rparr>
           in \<lparr>entity_after = s',
               effects = [ReadAttributes [ATTR_LOCK_STATE], WriteHaState s'],
               raised = None\<rparr>)
      | ReadOk result \<Rightarrow>
          (let s1 = (case result ATTR_LOCK_STATE of
                       None \<Rightarrow> s
                     | Some v \<Rightarrow>
                         s\<lparr>lock_state :=
                              Some (if v = RInt 1 then STATE_LOCKED else STATE_UNLOCKED),
                           lock_available := True\<rparr>);
               ev = update_event_data r_ev s1;
               s' = entity_after ev
           in \<lparr>entity_after = s',
               effects = [ReadAttributes [ATTR_LOCK_STATE]] @ effects ev @ [WriteHaState s'],
               raised = None\<rparr>))"

definition lock_attribute_updated ::
  "int \<Rightarrow> raw \<Rightarrow> string \<Rightarrow> lock_entity \<Rightarrow> lock_entity outcome" where
  "lock_attribute_updated attrid v now s =
     (if attrid = the (int16 ATTR_LOCK_STATE)
      then (let s1 = s\<lparr>lock_state :=
                          Some (if v = RInt 1 then STATE_LOCKED else STATE_UNLOCKED)\<rparr>;
                s' = (if v = RInt 1 \<and> last_event_type s1 \<noteq> Some EVENT_TYPE_AUTO_LOCK
                      then s1\<lparr>last_event_type := Some EVENT_TYPE_AUTO_LOCK,
                              last_event_time := Some now\<rparr>
                      else s1)
            in \<lparr>entity_after = s', effects = [WriteHaState s'], raised = None\<rparr>)
      else \<lparr>entity_after = s, effects = [], raised = None\<rparr>)"

section \<open>select.py: the LED and sound volume selectors\<close>

definition SOUND_VOLUME_OPTIONS :: "(int \<times> string) list" where
  "SOUND_VOLUME_OPTIONS = [(0, ''Off''), (1, ''Low''), (2, ''Medium''), (3, ''High'')]"

record select_entity =
  attr_options :: "string list"
  current_option_index :: int
  sel_available :: bool

definition NimlyProLEDSettingsSelect_init :: select_entity where
  "NimlyProLEDSettingsSelect_init =
     \<lparr>attr_options = dict_values LED_SETTINGS_OPTIONS, current_option_index = 0,
      sel_available = True\<rparr>"

definition NimlyProSoundVolumeSelect_init :: select_entity where
  "NimlyProSoundVolumeSelect_init =
     \<lparr>attr_options = dict_values SOUND_VOLUME_OPTIONS, current_option_index = 0,
      sel_available = True\<rparr>"

definition current_option :: "select_entity \<Rightarrow> error + string" where
  "current_option s = py_getitem (attr_options s) (current_option_index s)"

text \<open>The guard \<^verbatim>\<open>value is not None and 0 <= value < len(self._attr_options)\<close>;
  comparing a string with \<^verbatim>\<open>0\<close> raises \<^verbatim>\<open>TypeError\<close>.\<close>

fun index_guard :: "raw \<Rightarrow> string list \<Rightarrow> error + bool" where
  "index_guard RNone options = Inr False"
| "index_guard (RInt v) options = Inr (0 \<le> v \<and> v < int (length options))"
| "index_guard (RStr x) options = Inl TypeError"

text \<open>The index a guarded value stores (only used where the guard holds).\<close>

fun raw_int :: "raw \<Rightarrow> int" where
  "raw_int (RInt v) = v"
| "raw_int RNone = 0"
| "raw_int (RStr x) = 0"

definition led_select_option ::
  "string \<Rightarrow> write_outcome \<Rightarrow> select_entity \<Rightarrow> select_entity outcome" where
  "led_select_option option w s =
     (case py_index (attr_options s) option of
        Inl e \<Rightarrow> \<lparr>entity_after = s, effects = [], raised = Some e\<rparr>
      | Inr option_index \<Rightarrow>
          (case w of
             WriteOk \<Rightarrow>
               (let s' = s\<lparr>current_option_index := option_index\<rparr>
                in \<lparr>entity_after = s',
                    effects = [WriteAttributes [(the (int16 ATTR_LED_SETTINGS), option_index)],
                               WriteHaState s'],
                    raised = None\<rparr>)
           | WriteFault \<Rightarrow>
               \<lparr>entity_after = s,
                effects = [WriteAttributes [(the (int16 ATTR_LED_SETTINGS), option_index)]],
                raised = None\<rparr>))"

definition update_led_settings :: "read_outcome \<Rightarrow> select_entity \<Rightarrow> select_entity outcome" where
  "update_led_settings r s =
     (case r of
        ReadFault \<Rightarrow>
          (let s' = s\<lparr>sel_available := False\<rparr>
           in \<lparr>entity_after = s',
               effects = [ReadAttributes [ATTR_LED_SETTINGS], WriteHaState s'],
               raised = None\<rparr>)
      | ReadOk result \<Rightarrow>
          (case result ATTR_LED_SETTINGS of
             None \<Rightarrow>
               \<lparr>entity_after = s,
                effects = [ReadAttributes [ATTR_LED_SETTINGS], WriteHaState s],
                raised = None\<rparr>
           | Some v \<Rightarrow>
               (case index_guard v (attr_options s) of
                  Inl e \<Rightarrow>
                    \<lparr>entity_after = s, effects = [ReadAttributes [ATTR_LED_SETTINGS]],
                     raised = Some e\<rparr>
                | Inr ok \<Rightarrow>
                    (let s1 = (if ok then s\<lparr>current_option_index := raw_int v\<rparr> else s);
                         s' = s1\<lparr>sel_available := True\<rparr>
                     in \<lparr>entity_after = s',
                         effects = [ReadAttributes [ATTR_LED_SETTINGS], WriteHaState s'],
                         raised = None\<rparr>))))"

definition led_attribute_updated :: "int \<Rightarrow> raw \<Rightarrow> select_entity \<Rightarrow> select_entity outcome" where
  "led_attribute_updated attrid v s =
     (if attrid = the (int16 ATTR_LED_SETTINGS)
      then (case index_guard v (attr_options s) of
              Inl e \<Rightarrow> \<lparr>entity_after = s, effects = [], raised = Some e\<rparr>
            | Inr ok \<Rightarrow>
                (if ok
                 then (let s' = s\<lparr>current_option_index := raw_int v\<rparr>
                       in \<lparr>entity_after = s', effects = [WriteHaState s'], raised = None\<rparr>)
                 else \<lparr>entity_after = s, effects = [], raised = None\<rparr>))
      else \<lparr>entity_after = s, effects = [], raised = None\<rparr>)"

definition sound_select_option ::
  "string \<Rightarrow> write_outcome \<Rightarrow> select_entity \<Rightarrow> select_entity outcome" where
  "sound_select_option option w s =
     (case py_index (attr_options s) option of
        Inl e \<Rightarrow> \<lparr>entity_after = s, effects = [], raised = Some e\<rparr>
      | Inr option_index \<Rightarrow>
          (case w of
             WriteOk \<Rightarrow>
               (let s' = s\<lparr>current_option_index := option_index\<rparr>
                in \<lparr>entity_after = s',
                    effects = [WriteAttributes [(the (int16 ATTR_SOUND_VOLUME), option_index)],
                               WriteHaState s'],
                    raised = None\<rparr>)
           | WriteFault \<Rightarrow>
               \<lparr>entity_after = s,
                effects = [WriteAttributes [(the (int16 ATTR_SOUND_VOLUME), option_index)]],
                raised = None\<rparr>))"

definition update_sound_volume :: "read_outcome \<Rightarrow> select_entity \<Rightarrow> select_entity outcome" where
  "update_sound_volume r s =
     (case r of
        ReadFault \<Rightarrow>
          (let s' = s\<lparr>sel_available := False\<rparr>
           in \<lparr>entity_after = s',
               effects = [ReadAttributes [ATTR_SOUND_VOLUME], WriteHaState s'],
               raised = None\<rparr>)
      | ReadOk result \<Rightarrow>
          (case result ATTR_SOUND_VOLUME of
             None \<Rightarrow>
               \<lparr>entity_after = s,
                effects = [ReadAttributes [ATTR_SOUND_VOLUME], WriteHaState s],
                raised = None\<rparr>
           | Some v \<Rightarrow>
               (case index_guard v (attr_options s) of
                  Inl e \<Rightarrow>
                    \<lparr>entity_after = s, effects = [ReadAttributes [ATTR_SOUND_VOLUME]],
                     raised = Some e\<rparr>
                | Inr ok \<Rightarrow>
                    (let s1 = (if ok then s\<lparr>current_option_index := raw_int v\<rparr> else s);
                         s' = s1\<lparr>sel_available := True\<rparr>
                     in \<lparr>entity_after = s',
                         effects = [ReadAttributes [ATTR_SOUND_VOLUME], WriteHaState s'],
                         raised = None\<rparr>))))"

definition sound_attribute_updated :: "int \<Rightarrow> raw \<Rightarrow> select_entity \<Rightarrow> select_entity outcome" where
  "sound_attribute_updated attrid v s =
     (if attrid = the (int16 ATTR_SOUND_VOLUME)
      then (case index_guard v (attr_options s) of
              Inl e \<Rightarrow> \<lparr>entity_after = s, effects = [], raised = Some e\<rparr>
            | Inr ok \<Rightarrow>
                (if ok
                 then (let s' = s\<lparr>current_option_index := raw_int v\<rparr>
                       in \<lparr>entity_after = s', effects = [WriteHaState s'], raised = None\<rparr>)
                 else \<lparr>entity_after = s, effects = [], raised = None\<rparr>))
      else \<lparr>entity_after = s, effects = [], raised = None\<rparr>)"

section \<open>number.py: the auto-relock time\<close>

text \<open>The host hands \<^verbatim>\<open>async_set_native_value\<close> a float.  A finite float is a
  rational number; \<^verbatim>\<open>int(value)\<close> truncates it towards zero, raises
  \<^verbatim>\<open>ValueError\<close> on a NaN and \<^verbatim>\<open>OverflowError\<close> on an infinity.\<close>

datatype pyfloat = Finite rat | NaN | PosInf | NegInf

fun py_int :: "pyfloat \<Rightarrow> error + int" where
  "py_int (Finite q) = Inr (if 0 \<le> q then \<lfloor>q\<rfloor> else \<lceil>q\<rceil>)"
| "py_int NaN = Inl ValueError"
| "py_int PosInf = Inl OverflowError"
| "py_int NegInf = Inl OverflowError"

text \<open>\<^verbatim>\<open>_attr_native_value\<close> holds whatever was assigned last: a raw value from the
  device (or the integer default), or the float of a user's request.\<close>

datatype native_value = FromDevice raw | FromUser pyfloat

record number_entity =
  native_min_value :: int
  native_max_value :: int
  native_step :: int
  native_value :: native_value
  attr_mode :: string
  native_unit_of_measurement :: string
  num_available :: bool

definition NimlyProAutoRelockTime_init :: number_entity where
  "NimlyProAutoRelockTime_init =
     \<lparr>native_min_value = 0, native_max_value = 3600, native_step = 1,
      native_value = FromDevice (RInt DEFAULT_AUTO_RELOCK_TIME), attr_mode = ''slider'',
      native_unit_of_measurement = ''seconds'', num_available = True\<rparr>"

definition async_set_native_value ::
  "pyfloat \<Rightarrow> write_outcome \<Rightarrow> number_entity \<Rightarrow> number_entity outcome" where
  "async_set_native_value v w s =
     (case py_int v of
        Inl e \<Rightarrow> \<lparr>entity_after = s, effects = [], raised = Some e\<rparr>
      | Inr i \<Rightarrow>
          (case w of
             WriteOk \<Rightarrow>
               (let s' = s\<lparr>native_value := FromUser v\<rparr>
                in \<lparr>entity_after = s',
                    effects = [WriteAttributes [(the (int16 ATTR_AUTO_RELOCK_TIME), i)],
                               WriteHaState s'],
                    raised = None\<rparr>)
           | WriteFault \<Rightarrow>
               \<lparr>entity_after = s,
                effects = [WriteAttributes [(the (int16 ATTR_AUTO_RELOCK_TIME), i)]],
                raised = None\<rparr>))"

definition update_auto_relock_time ::
  "read_outcome \<Rightarrow> number_entity \<Rightarrow> number_entity outcome" where
  "update_auto_relock_time r s =
     (case r of
        ReadFault \<Rightarrow>
          (let s' = s\<lparr>num_available := False\<rparr>
           in \<lparr>entity_after = s',
               effects = [ReadAttributes [ATTR_AUTO_RELOCK_TIME], WriteHaState s'],
               raised = None\<rparr>)
      | ReadOk result \<Rightarrow>
          (let s' = (case result ATTR_AUTO_RELOCK_TIME of
                       None \<Rightarrow> s
                     | Some v \<Rightarrow>
                         (let s1 = (if v \<noteq> RNone then s\<lparr>native_value := FromDevice v\<rparr> else s)
                          in s1\<lparr>num_available := True\<rparr>))
           in \<lparr>entity_after = s',
               effects = [ReadAttributes [ATTR_AUTO_RELOCK_TIME], WriteHaState s'],
               raised = None\<rparr>))"

definition relock_attribute_updated ::
  "int \<Rightarrow> raw \<Rightarrow> number_entity \<Rightarrow> number_entity outcome" where
  "relock_attribute_updated attrid v s =
     (if attrid = the (int16 ATTR_AUTO_RELOCK_TIME)
      then (if v \<noteq> RNone
            then (let s' = s\<lparr>native_value := FromDevice v\<rparr>
                  in \<lparr>entity_after = s', effects = [WriteHaState s'], raised = None\<rparr>)
            else \<lparr>entity_after = s, effects = [], raised = None\<rparr>)
      else \<lparr>entity_after = s, effects = [], raised = None\<rparr>)"

section \<open>The host's view: one entity per attribute, driven by callbacks\<close>

text \<open>
  The host framework holds the entities and calls the methods each class defines:
  \<^verbatim>\<open>_async_update\<close> from the polling timer, \<^verbatim>\<open>attribute_updated\<close> from the endpoint
  listener, and the service methods \<^verbatim>\<open>async_lock\<close>, \<^verbatim>\<open>async_unlock\<close>,
  \<^verbatim>\<open>async_select_option\<close> and \<^verbatim>\<open>async_set_native_value\<close>.  A method the class does
  not define is \<^verbatim>\<open>AttributeError\<close>.  The last-user sensor issues no remote read and
  has no decoder; it is not modelled.
\<close>

datatype entity =
    Lock lock_entity
  | Door door_sensor
  | Firmware firmware_sensor
  | Led select_entity
  | Sound select_entity
  | Relock number_entity

datatype call =
    AsyncUpdate read_outcome read_outcome
  | AttributeUpdated int raw string
  | AsyncLock write_outcome
  | AsyncUnlock write_outcome string
  | AsyncSelectOption string write_outcome
  | AsyncSetNativeValue pyfloat write_outcome

definition lift_outcome :: "('a \<Rightarrow> 'b) \<Rightarrow> 'a outcome \<Rightarrow> 'b outcome" where
  "lift_outcome f out =
     \<lparr>entity_after = f (entity_after out), effects = map (map_effect f) (effects out),
      raised = raised out\<rparr>"

definition no_such_method :: "entity \<Rightarrow> entity outcome" where
  "no_such_method e = \<lparr>entity_after = e, effects = [], raised = Some AttributeError\<rparr>"

text \<open>\<^verbatim>\<open>_async_update\<close> of each class calls its one update method.  The second read
  outcome answers the lock's read of the event masks; the other classes read once.\<close>

fun async_update :: "read_outcome \<Rightarrow> read_outcome \<Rightarrow> entity \<Rightarrow> entity outcome" where
  "async_update r r_ev (Lock s) = lift_outcome Lock (update_lock_state r r_ev s)"
| "async_update r r_ev (Door s) = lift_outcome Door (update_door_state r s)"
| "async_update r r_ev (Firmware s) = lift_outcome Firmware (update_firmware_version r s)"
| "async_update r r_ev (Led s) = lift_outcome Led (update_led_settings r s)"
| "async_update r r_ev (Sound s) = lift_outcome Sound (update_sound_volume r s)"
| "async_update r r_ev (Relock s) = lift_outcome Relock (update_auto_relock_time r s)"

fun attribute_updated :: "int \<Rightarrow> raw \<Rightarrow> string \<Rightarrow> entity \<Rightarrow> entity outcome" where
  "attribute_updated a v now (Lock s) = lift_outcome Lock (lock_attribute_updated a v now s)"
| "attribute_updated a v now (Door s) = lift_outcome Door (door_attribute_updated a v s)"
| "attribute_updated a v now (Firmware s) = no_such_method (Firmware s)"
| "attribute_updated a v now (Led s) = lift_outcome Led (led_attribute_updated a v s)"
| "attribute_updated a v now (Sound s) = lift_outcome Sound (sound_attribute_updated a v s)"
| "attribute_updated a v now (Relock s) = lift_outcome Relock (relock_attribute_updated a v s)"

fun dispatch :: "call \<Rightarrow> entity \<Rightarrow> entity outcome" where
  "dispatch (AsyncUpdate r r_ev) e = async_update r r_ev e"
| "dispatch (AttributeUpdated a v now) e = attribute_updated a v now e"
| "dispatch (AsyncLock w) (Lock s) = lift_outcome Lock (async_lock w s)"
| "dispatch (AsyncUnlock w now) (Lock s) = lift_outcome Lock (async_unlock w now s)"
| "dispatch (AsyncSelectOption option w) (Led s) = lift_outcome Led (led_select_option option w s)"
| "dispatch (AsyncSelectOption option w) (Sound s) =
     lift_outcome Sound (sound_select_option option w s)"
| "dispatch (AsyncSetNativeValue v w) (Relock s) =
     lift_outcome Relock (async_set_native_value v w s)"
| "dispatch c e = no_such_method e"

text \<open>A sequence of calls, each on the entity the previous one left (an exception
  leaves the entity as it was when raised).\<close>

fun run :: "call list \<Rightarrow> entity \<Rightarrow> entity" where
  "run [] e = e"
| "run (c # cs) e = run cs (entity_after (dispatch c e))"

subsection \<open>Observations on an entity\<close>

fun availability :: "entity \<Rightarrow> bool" where
  "availability (Lock s) = lock_available s"
| "availability (Door s) = door_available s"
| "availability (Firmware s) = fw_available s"
| "availability (Led s) = sel_available s"
| "availability (Sound s) = sel_available s"
| "availability (Relock s) = num_available s"

datatype domain_value =
    LockValue "string option"
  | DoorValue "bool option"
  | TextValue string
  | IndexValue int
  | NumberValue native_value

fun current_value :: "entity \<Rightarrow> domain_value" where
  "current_value (Lock s) = LockValue (lock_state s)"
| "current_value (Door s) = DoorValue (door_is_on s)"
| "current_value (Firmware s) = TextValue (fw_native_value s)"
| "current_value (Led s) = IndexValue (current_option_index s)"
| "current_value (Sound s) = IndexValue (current_option_index s)"
| "current_value (Relock s) = NumberValue (native_value s)"

text \<open>The attribute each class asks for in its read.\<close>

fun attribute_of :: "entity \<Rightarrow> string" where
  "attribute_of (Lock s) = ATTR_LOCK_STATE"
| "attribute_of (Door s) = ATTR_DOOR_STATE"
| "attribute_of (Firmware s) = ATTR_CURRENT_FILE_VERSION"
| "attribute_of (Led s) = ATTR_LED_SETTINGS"
| "attribute_of (Sound s) = ATTR_SOUND_VOLUME"
| "attribute_of (Relock s) = ATTR_AUTO_RELOCK_TIME"

text \<open>The method ends with \<^verbatim>\<open>async_write_ha_state()\<close> on the entity it leaves.\<close>

definition publishes_last :: "'s outcome \<Rightarrow> bool" where
  "publishes_last out =
     (effects out \<noteq> [] \<and> last (effects out) = WriteHaState (entity_after out))"

fun is_publish :: "'s effect \<Rightarrow> bool" where
  "is_publish (WriteHaState s) = True"
| "is_publish x = False"

fun is_read :: "'s effect \<Rightarrow> bool" where
  "is_read (ReadAttributes as) = True"
| "is_read x = False"

fun is_write :: "'s effect \<Rightarrow> bool" where
  "is_write (WriteAttributes ws) = True"
| "is_write LockDoor = True"
| "is_write UnlockDoor = True"
| "is_write x = False"

section \<open>Notions of the specification\<close>

text \<open>A raw value that is a string; a selector compares its raw value with \<^verbatim>\<open>0\<close>,
  which Python refuses for a string.\<close>

fun is_text :: "raw \<Rightarrow> bool" where
  "is_text (RStr x) = True"
| "is_text v = False"

fun is_selector :: "entity \<Rightarrow> bool" where
  "is_selector (Led s) = True"
| "is_selector (Sound s) = True"
| "is_selector e = False"

text \<open>The decoder of each kind of entity as the specification words it: lock state
  \<^verbatim>\<open>1\<close> is locked and anything else unlocked; door state \<^verbatim>\<open>0\<close> is open; the firmware
  version is formatted; a selector takes an index into its option list and has no value
  for an index outside it; the relock time is the raw value, and \<^verbatim>\<open>None\<close> is no value.\<close>

fun spec_decode :: "entity \<Rightarrow> raw \<Rightarrow> domain_value option" where
  "spec_decode (Lock s) v =
     Some (LockValue (Some (if v = RInt 1 then STATE_LOCKED else STATE_UNLOCKED)))"
| "spec_decode (Door s) v = Some (DoorValue (Some (v = RInt 0)))"
| "spec_decode (Firmware s) v = Some (TextValue (format_version v))"
| "spec_decode (Led s) v =
     (case v of
        RInt i \<Rightarrow>
          if 0 \<le> i \<and> i < int (length (attr_options s)) then Some (IndexValue i) else None
      | _ \<Rightarrow> None)"
| "spec_decode (Sound s) v =
     (case v of
        RInt i \<Rightarrow>
          if 0 \<le> i \<and> i < int (length (attr_options s)) then Some (IndexValue i) else None
      | _ \<Rightarrow> None)"
| "spec_decode (Relock s) v = (if v = RNone then None else Some (NumberValue (FromDevice v)))"

text \<open>What the polling reads of a sequence of calls say about availability, starting
  from \<^verbatim>\<open>b\<close>: a read that raised says false, a read that returned attribute \<^verbatim>\<open>a\<close>
  says true, and every other call says nothing.\<close>

fun last_read_verdict :: "string \<Rightarrow> call list \<Rightarrow> bool \<Rightarrow> bool" where
  "last_read_verdict a [] b = b"
| "last_read_verdict a (AsyncUpdate ReadFault r_ev # cs) b = last_read_verdict a cs False"
| "last_read_verdict a (AsyncUpdate (ReadOk m) r_ev # cs) b =
     last_read_verdict a cs (if m a = None then b else True)"
| "last_read_verdict a (c # cs) b = last_read_verdict a cs b"

text \<open>A call whose read does not hand a string to a selector.\<close>

fun reads_typed :: "bool \<Rightarrow> string \<Rightarrow> call \<Rightarrow> bool" where
  "reads_typed sel a (AsyncUpdate (ReadOk m) r_ev) =
     (case m a of Some v \<Rightarrow> \<not> (sel \<and> is_text v) | None \<Rightarrow> True)"
| "reads_typed sel a c = True"

text \<open>The domain value a service call asks for, where the entity accepts it.\<close>

fun requested_value :: "entity \<Rightarrow> call \<Rightarrow> domain_value option" where
  "requested_value (Lock s) (AsyncLock w) = Some (LockValue (Some STATE_LOCKED))"
| "requested_value (Lock s) (AsyncUnlock w now) = Some (LockValue (Some STATE_UNLOCKED))"
| "requested_value (Led s) (AsyncSelectOption option w) =
     (case py_index (attr_options s) option of
        Inr i \<Rightarrow> Some (IndexValue i)
      | Inl e \<Rightarrow> None)"
| "requested_value (Sound s) (AsyncSelectOption option w) =
     (case py_index (attr_options s) option of
        Inr i \<Rightarrow> Some (IndexValue i)
      | Inl e \<Rightarrow> None)"
| "requested_value (Relock s) (AsyncSetNativeValue x w) =
     (case x of
        Finite q \<Rightarrow> Some (NumberValue (FromUser x))
      | _ \<Rightarrow> None)"
| "requested_value e c = None"

text \<open>How the remote write of a service call ended.\<close>

fun write_result :: "call \<Rightarrow> write_outcome option" where
  "write_result (AsyncLock w) = Some w"
| "write_result (AsyncUnlock w now) = Some w"
| "write_result (AsyncSelectOption option w) = Some w"
| "write_result (AsyncSetNativeValue x w) = Some w"
| "write_result c = None"

text \<open>The declared bounds of the number entity, read on a stored value: an integer
  from the device or a finite float from the host within the bounds.\<close>

fun value_within :: "int \<Rightarrow> int \<Rightarrow> native_value \<Rightarrow> bool" where
  "value_within lo hi (FromDevice (RInt v)) = (lo \<le> v \<and> v \<le> hi)"
| "value_within lo hi (FromUser (Finite q)) = (of_int lo \<le> q \<and> q \<le> of_int hi)"
| "value_within lo hi x = False"

definition within_bounds :: "number_entity \<Rightarrow> bool" where
  "within_bounds s = value_within (native_min_value s) (native_max_value s) (native_value s)"

text \<open>The value a call hands the number entity to store, if any: the relock attribute
  of a read, a push of the relock attribute, or the float of a request whose write
  returned.\<close>

fun delivered :: "call \<Rightarrow> native_value option" where
  "delivered (AsyncUpdate (ReadOk m) r_ev) =
     (case m ATTR_AUTO_RELOCK_TIME of
        None \<Rightarrow> None
      | Some v \<Rightarrow> if v = RNone then None else Some (FromDevice v))"
| "delivered (AttributeUpdated a v now) =
     (if a = the (int16 ATTR_AUTO_RELOCK_TIME) \<and> v \<noteq> RNone then Some (FromDevice v) else None)"
| "delivered (AsyncSetNativeValue x WriteOk) =
     (case x of
        Finite q \<Rightarrow> Some (FromUser x)
      | _ \<Rightarrow> None)"
| "delivered c = None"

definition delivers_within :: "int \<Rightarrow> int \<Rightarrow> call \<Rightarrow> bool" where
  "delivers_within lo hi c =
     (case delivered c of
        None \<Rightarrow> True
      | Some x \<Rightarrow> value_within lo hi x)"

text \<open>A call that reaches the lock's stored state: a read that returned the lock state,
  a push of the lock state, or a lock or unlock command that returned.\<close>

fun reaches_lock_state :: "call \<Rightarrow> bool" where
  "reaches_lock_state (AsyncUpdate (ReadOk m) r_ev) = (m ATTR_LOCK_STATE \<noteq> None)"
| "reaches_lock_state (AttributeUpdated a v now) = (a = the (int16 ATTR_LOCK_STATE))"
| "reaches_lock_state (AsyncLock WriteOk) = True"
| "reaches_lock_state (AsyncUnlock WriteOk now) = True"
| "reaches_lock_state c = False"

section \<open>Facts about the built-ins\<close>

lemmas update_defs =
  update_lock_state_def update_event_data_def update_door_state_def update_firmware_version_def
  update_led_settings_def update_sound_volume_def update_auto_relock_time_def

lemmas method_defs =
  update_defs async_lock_def async_unlock_def lock_attribute_updated_def
  door_attribute_updated_def led_select_option_def led_attribute_updated_def
  sound_select_option_def sound_attribute_updated_def async_set_native_value_def
  relock_attribute_updated_def no_such_method_def lift_outcome_def

lemma attr_ids:
  "int16 ATTR_LOCK_STATE = Some 0"
  "int16 ATTR_DOOR_STATE = Some 3"
  "int16 ATTR_LED_SETTINGS = Some 34"
  "int16 ATTR_SOUND_VOLUME = Some 36"
  "int16 ATTR_AUTO_RELOCK_TIME = Some 35"
  by (simp_all add: ATTR_LOCK_STATE_def ATTR_DOOR_STATE_def ATTR_LED_SETTINGS_def
      ATTR_SOUND_VOLUME_def ATTR_AUTO_RELOCK_TIME_def hex_digits_def)

lemma and_255: "(x::int) AND 255 = x mod 256"
  using take_bit_eq_mask [of 8 x] by (simp add: take_bit_eq_mod mask_eq_exp_minus_1)

lemma format_version_bytes:
  "format_version (RInt v) =
     str_nat (nat (v div 2 ^ 24 mod 256)) @ ''.'' @ str_nat (nat (v div 2 ^ 16 mod 256)) @ ''.''
     @ str_nat (nat (v div 2 ^ 8 mod 256)) @ ''.'' @ str_nat (nat (v mod 256))"
proof -
  have nn: "\<not> (x::int) mod 256 < 0" for x
    by (simp add: not_less)
  show ?thesis
    by (simp add: format_version_def Let_def and_255 drop_bit_eq_div str_int_def nn)
qed

lemma bytes_recompose:
  fixes v :: int
  assumes "0 \<le> v" "v < 2 ^ 32"
  shows "v = 2 ^ 24 * (v div 2 ^ 24 mod 256) + 2 ^ 16 * (v div 2 ^ 16 mod 256)
             + 2 ^ 8 * (v div 2 ^ 8 mod 256) + v mod 256"
proof -
  define q1 where "q1 = v div 256"
  define q2 where "q2 = q1 div 256"
  define q3 where "q3 = q2 div 256"
  have a: "v = 256 * q1 + v mod 256" by (simp add: q1_def)
  have b: "q1 = 256 * q2 + q1 mod 256" by (simp add: q2_def)
  have c: "q2 = 256 * q3 + q2 mod 256" by (simp add: q3_def)
  have e1: "v div 2 ^ 8 = q1" by (simp add: q1_def)
  have e2: "v div 2 ^ 16 = q2" by (simp add: q2_def q1_def zdiv_zmult2_eq)
  have e3: "v div 2 ^ 24 = q3" by (simp add: q3_def q2_def q1_def zdiv_zmult2_eq)
  have "0 \<le> q3" using assms(1) by (simp add: q3_def q2_def q1_def pos_imp_zdiv_nonneg_iff)
  moreover have "q3 < 256" using assms(2) unfolding e3[symmetric] by simp
  ultimately have d: "q3 mod 256 = q3" by simp
  have "v = 16777216 * q3 + 65536 * (q2 mod 256) + 256 * (q1 mod 256) + v mod 256"
    using a b c by linarith
  then show ?thesis unfolding e1 e2 e3 d by simp
qed

lemma py_index_bounds:
  "py_index xs x = Inr i \<Longrightarrow> 0 \<le> i \<and> i < int (length xs)"
  by (induction xs arbitrary: i) (auto split: if_splits sum.splits)

lemma py_index_nth:
  "py_index xs x = Inr i \<Longrightarrow> xs ! nat i = x"
proof (induction xs arbitrary: i)
  case Nil
  then show ?case by simp
next
  case (Cons y ys)
  show ?case
  proof (cases "y = x")
    case True
    with Cons.prems show ?thesis by simp
  next
    case False
    with Cons.prems obtain j where j: "py_index ys x = Inr j" "i = j + 1"
      by (auto split: sum.splits)
    from py_index_bounds[OF j(1)] have "0 \<le> j" by simp
    then have "nat i = Suc (nat j)" using j(2) by simp
    with Cons.IH[OF j(1)] show ?thesis by simp
  qed
qed

lemma py_getitem_py_index:
  "py_index xs x = Inr i \<Longrightarrow> py_getitem xs i = Inr x"
  using py_index_bounds[of xs x i] py_index_nth[of xs x i]
  by (simp add: py_getitem_def Let_def)

lemma py_index_member:
  "x \<in> set xs \<Longrightarrow> \<exists>i. py_index xs x = Inr i"
  by (induction xs) auto

lemma py_index_absent:
  "x \<notin> set xs \<Longrightarrow> py_index xs x = Inl ValueError"
  by (induction xs) auto

section \<open>Facts about the entities\<close>

lemma reconcile_fault:
  "current_value (entity_after (async_update ReadFault r_ev e)) = current_value e
   \<and> \<not> availability (entity_after (async_update ReadFault r_ev e))
   \<and> publishes_last (async_update ReadFault r_ev e)
   \<and> raised (async_update ReadFault r_ev e) = None"
  by (cases e) (simp_all add: update_defs lift_outcome_def publishes_last_def Let_def)

lemma reconcile_present:
  assumes "result (attribute_of e) = Some v" "\<not> (is_selector e \<and> is_text v)"
  shows "availability (entity_after (async_update (ReadOk result) r_ev e))
   \<and> current_value (entity_after (async_update (ReadOk result) r_ev e)) =
       (case spec_decode e v of Some d \<Rightarrow> d | None \<Rightarrow> current_value e)
   \<and> publishes_last (async_update (ReadOk result) r_ev e)
   \<and> raised (async_update (ReadOk result) r_ev e) = None"
  using assms
  by (cases e; cases v)
     (simp_all add: update_defs lift_outcome_def publishes_last_def Let_def DOOR_STATE_OPEN_def)

lemma reconcile_absent:
  assumes "result (attribute_of e) = None"
  shows "entity_after (async_update (ReadOk result) r_ev e) = e
   \<and> publishes_last (async_update (ReadOk result) r_ev e)
   \<and> raised (async_update (ReadOk result) r_ev e) = None"
  using assms
  by (cases e)
     (simp_all add: update_defs lift_outcome_def publishes_last_def Let_def)

lemma dispatch_kind:
  "attribute_of (entity_after (dispatch c e)) = attribute_of e
   \<and> is_selector (entity_after (dispatch c e)) = is_selector e"
  by (cases c; cases e)
     (simp_all add: method_defs Let_def
        split: read_outcome.splits write_outcome.splits option.splits sum.splits)

lemma async_update_availability:
  "availability (entity_after (async_update ReadFault r_ev e)) = False"
  "m (attribute_of e) = None \<Longrightarrow>
     availability (entity_after (async_update (ReadOk m) r_ev e)) = availability e"
  "m (attribute_of e) = Some v \<Longrightarrow> \<not> (is_selector e \<and> is_text v) \<Longrightarrow>
     availability (entity_after (async_update (ReadOk m) r_ev e)) = True"
  using reconcile_fault[of r_ev e] reconcile_absent[of m e r_ev] reconcile_present[of m e v r_ev]
  by simp_all

lemma other_calls_availability:
  "availability (entity_after (attribute_updated a v now e)) = availability e"
  "availability (entity_after (dispatch (AsyncLock w) e)) = availability e"
  "availability (entity_after (dispatch (AsyncUnlock w now) e)) = availability e"
  "availability (entity_after (dispatch (AsyncSelectOption option w) e)) = availability e"
  "availability (entity_after (dispatch (AsyncSetNativeValue x w) e)) = availability e"
  by (cases e; simp add: method_defs Let_def
        split: write_outcome.splits option.splits sum.splits)+

lemma step_availability:
  assumes "reads_typed (is_selector e) (attribute_of e) c"
  shows "availability (entity_after (dispatch c e)) =
         last_read_verdict (attribute_of e) [c] (availability e)"
proof (cases c)
  case (AsyncUpdate r r_ev)
  show ?thesis
  proof (cases r)
    case ReadFault
    with AsyncUpdate show ?thesis by (simp add: async_update_availability(1))
  next
    case (ReadOk m)
    show ?thesis
    proof (cases "m (attribute_of e)")
      case None
      with AsyncUpdate ReadOk show ?thesis by (simp add: async_update_availability(2))
    next
      case (Some v)
      with AsyncUpdate ReadOk assms show ?thesis
        by (simp add: async_update_availability(3))
    qed
  qed
qed (simp_all add: other_calls_availability)

lemma verdict_unfold:
  "last_read_verdict a (c # cs) b = last_read_verdict a cs (last_read_verdict a [c] b)"
  by (cases "(a, c # cs, b)" rule: last_read_verdict.cases) simp_all

lemma run_availability:
  assumes "list_all (reads_typed (is_selector e) (attribute_of e)) cs"
  shows "availability (run cs e) = last_read_verdict (attribute_of e) cs (availability e)"
  using assms
proof (induction cs arbitrary: e)
  case Nil
  then show ?case by simp
next
  case (Cons c cs)
  let ?e' = "entity_after (dispatch c e)"
  from Cons.prems have c: "reads_typed (is_selector e) (attribute_of e) c"
    and cs: "list_all (reads_typed (is_selector ?e') (attribute_of ?e')) cs"
    by (simp_all add: dispatch_kind)
  have "availability (run (c # cs) e) = availability (run cs ?e')" by simp
  also have "\<dots> = last_read_verdict (attribute_of ?e') cs (availability ?e')"
    by (rule Cons.IH[OF cs])
  also have "\<dots> = last_read_verdict (attribute_of e) cs
                     (last_read_verdict (attribute_of e) [c] (availability e))"
    by (simp add: dispatch_kind step_availability[OF c])
  also have "\<dots> = last_read_verdict (attribute_of e) (c # cs) (availability e)"
    by (rule verdict_unfold[symmetric])
  finally show ?case .
qed

lemma is_publish_map [simp]: "is_publish (map_effect f x) = is_publish x"
  by (cases x) simp_all

lemma is_read_map [simp]: "is_read (map_effect f x) = is_read x"
  by (cases x) simp_all

lemma is_write_map [simp]: "is_write (map_effect f x) = is_write x"
  by (cases x) simp_all

lemma write_fault:
  assumes "requested_value e c = Some d" "write_result c = Some WriteFault"
  shows "entity_after (dispatch c e) = e
    \<and> \<not> list_ex is_publish (effects (dispatch c e))
    \<and> list_ex is_write (effects (dispatch c e))
    \<and> raised (dispatch c e) = None"
  using assms
  by (cases e; cases c)
     (auto simp: method_defs Let_def split: sum.splits pyfloat.splits)

lemma write_ok:
  assumes "requested_value e c = Some d" "write_result c = Some WriteOk"
  shows "current_value (entity_after (dispatch c e)) = d
    \<and> publishes_last (dispatch c e)
    \<and> \<not> list_ex is_read (effects (dispatch c e))
    \<and> list_ex is_write (effects (dispatch c e))
    \<and> raised (dispatch c e) = None"
  using assms
  by (cases e; cases c)
     (auto simp: method_defs publishes_last_def Let_def split: sum.splits pyfloat.splits)

lemma select_ok_label:
  assumes "option \<in> set (attr_options t)"
  shows "current_option (entity_after (led_select_option option WriteOk t)) = Inr option"
    "current_option (entity_after (sound_select_option option WriteOk t)) = Inr option"
  using py_index_member[OF assms] py_getitem_py_index[of "attr_options t" option]
  by (auto simp: led_select_option_def sound_select_option_def current_option_def Let_def)

lemma no_request_no_write:
  assumes "requested_value e c = None"
  shows "\<not> list_ex is_write (effects (dispatch c e))"
proof (cases c)
  case (AsyncUpdate r r_ev)
  then show ?thesis
    by (cases e; cases r)
       (auto simp: method_defs Let_def split: option.splits sum.splits)
next
  case (AttributeUpdated a v now)
  then show ?thesis
    by (cases e) (auto simp: method_defs Let_def split: option.splits sum.splits)
next
  case (AsyncLock w)
  with assms show ?thesis by (cases e) (auto simp: method_defs)
next
  case (AsyncUnlock w now)
  with assms show ?thesis by (cases e) (auto simp: method_defs)
next
  case (AsyncSelectOption option w)
  with assms show ?thesis
    by (cases e) (auto simp: method_defs split: sum.splits)
next
  case (AsyncSetNativeValue x w)
  with assms show ?thesis
    by (cases e; cases x) (auto simp: method_defs)
qed

lemma selector_index_read:
  assumes "e = Led s \<or> e = Sound s" "length (attr_options s) = 4"
    "result (attribute_of e) = Some (RInt v)"
  shows "raised (async_update (ReadOk result) r_ev e) = None"
    "v < 0 \<or> 3 < v \<Longrightarrow>
       current_value (entity_after (async_update (ReadOk result) r_ev e)) = current_value e"
    "0 \<le> v \<and> v \<le> 3 \<Longrightarrow>
       current_value (entity_after (async_update (ReadOk result) r_ev e)) = IndexValue v"
  using assms
  by (auto simp: update_defs lift_outcome_def Let_def)

lemma selector_index_push:
  assumes "e = Led s \<or> e = Sound s" "length (attr_options s) = 4"
    "int16 (attribute_of e) = Some a"
  shows "raised (attribute_updated a (RInt v) now e) = None"
    "v < 0 \<or> 3 < v \<Longrightarrow> entity_after (attribute_updated a (RInt v) now e) = e"
    "0 \<le> v \<and> v \<le> 3 \<Longrightarrow>
       current_value (entity_after (attribute_updated a (RInt v) now e)) = IndexValue v"
  using assms
  by (auto simp: method_defs Let_def)

lemma select_invalid:
  assumes "option \<notin> set (attr_options t)"
  shows "led_select_option option w t = \<lparr>entity_after = t, effects = [], raised = Some ValueError\<rparr>"
    "sound_select_option option w t = \<lparr>entity_after = t, effects = [], raised = Some ValueError\<rparr>"
  using py_index_absent[OF assms]
  by (simp_all add: led_select_option_def sound_select_option_def)

lemma number_unvalidated:
  "raised (async_set_native_value (Finite q) w n) = None"
  "hd (effects (async_set_native_value (Finite q) w n)) =
     WriteAttributes [(35, if 0 \<le> q then \<lfloor>q\<rfloor> else \<lceil>q\<rceil>)]"
  by (cases w; simp add: async_set_native_value_def attr_ids Let_def)+

lemma relock_step:
  "\<exists>s'. entity_after (dispatch c (Relock s)) = Relock s'
     \<and> native_value s' = (case delivered c of None \<Rightarrow> native_value s | Some x \<Rightarrow> x)
     \<and> native_min_value s' = native_min_value s
     \<and> native_max_value s' = native_max_value s"
proof (cases c)
  case (AsyncUpdate r r_ev)
  then show ?thesis
    by (cases r) (auto simp: method_defs Let_def split: option.splits)
next
  case (AttributeUpdated a v now)
  then show ?thesis by (auto simp: method_defs Let_def)
next
  case (AsyncSetNativeValue x w)
  then show ?thesis
    by (cases w; cases x) (auto simp: method_defs Let_def)
qed (simp_all add: method_defs)

lemma relock_run:
  assumes "within_bounds s" "list_all (delivers_within (native_min_value s) (native_max_value s)) cs"
  shows "\<exists>s'. run cs (Relock s) = Relock s' \<and> within_bounds s'
           \<and> native_min_value s' = native_min_value s
           \<and> native_max_value s' = native_max_value s"
  using assms
proof (induction cs arbitrary: s)
  case Nil
  then show ?case by simp
next
  case (Cons c cs)
  from relock_step[of c s] obtain s1 where s1:
    "entity_after (dispatch c (Relock s)) = Relock s1"
    "native_value s1 = (case delivered c of None \<Rightarrow> native_value s | Some x \<Rightarrow> x)"
    "native_min_value s1 = native_min_value s" "native_max_value s1 = native_max_value s"
    by blast
  from Cons.prems s1 have "within_bounds s1"
    by (auto simp: within_bounds_def delivers_within_def split: option.splits)
  moreover from Cons.prems s1
  have "list_all (delivers_within (native_min_value s1) (native_max_value s1)) cs"
    by simp
  ultimately obtain s' where "run cs (Relock s1) = Relock s'" "within_bounds s'"
    "native_min_value s' = native_min_value s1" "native_max_value s' = native_max_value s1"
    using Cons.IH by blast
  with s1 show ?case by simp
qed

lemma lock_step:
  "\<exists>s'. entity_after (dispatch c (Lock s)) = Lock s'
     \<and> (\<not> reaches_lock_state c \<longrightarrow> lock_state s' = lock_state s)
     \<and> (lock_state s' = lock_state s \<or> lock_state s' = Some STATE_LOCKED
          \<or> lock_state s' = Some STATE_UNLOCKED)"
proof (cases c)
  case (AsyncUpdate r r_ev)
  then show ?thesis
    by (cases r) (auto simp: method_defs Let_def split: option.splits)
next
  case (AttributeUpdated a v now)
  then show ?thesis by (auto simp: method_defs Let_def)
next
  case (AsyncLock w)
  then show ?thesis by (cases w) (auto simp: method_defs Let_def)
next
  case (AsyncUnlock w now)
  then show ?thesis by (cases w) (auto simp: method_defs Let_def)
qed (simp_all add: method_defs)

lemma lock_run_quiet:
  assumes "\<not> list_ex reaches_lock_state cs"
  shows "\<exists>s'. run cs (Lock s) = Lock s' \<and> lock_state s' = lock_state s"
  using assms
proof (induction cs arbitrary: s)
  case Nil
  then show ?case by simp
next
  case (Cons c cs)
  from lock_step[of c s] Cons.prems obtain s1 where
    "entity_after (dispatch c (Lock s)) = Lock s1" "lock_state s1 = lock_state s"
    by auto
  moreover from Cons.prems Cons.IH[of s1] obtain s' where
    "run cs (Lock s1) = Lock s'" "lock_state s' = lock_state s1"
    by auto
  ultimately show ?case by simp
qed

lemma lock_run_states:
  "\<exists>s'. run cs (Lock s) = Lock s'
     \<and> (lock_state s' = lock_state s \<or> lock_state s' = Some STATE_LOCKED
          \<or> lock_state s' = Some STATE_UNLOCKED)"
proof (induction cs arbitrary: s)
  case Nil
  then show ?case by simp
next
  case (Cons c cs)
  from lock_step[of c s] obtain s1 where s1:
    "entity_after (dispatch c (Lock s)) = Lock s1"
    "lock_state s1 = lock_state s \<or> lock_state s1 = Some STATE_LOCKED
       \<or> lock_state s1 = Some STATE_UNLOCKED"
    by blast
  from Cons.IH[of s1] obtain s' where
    "run cs (Lock s1) = Lock s'"
    "lock_state s' = lock_state s1 \<or> lock_state s' = Some STATE_LOCKED
       \<or> lock_state s' = Some STATE_UNLOCKED"
    by blast
  with s1 show ?case by auto
qed

section \<open>The firmware decoder\<close>

text \<open>
  C4.  For every raw integer \<open>v\<close> the firmware decoder returns the decimal forms of the
  four bytes \<open>(v >> 24) & 255\<close>, \<open>(v >> 16) & 255\<close>, \<open>(v >> 8) & 255\<close> and \<open>v & 255\<close>,
  most significant first and separated by dots; for \<open>v\<close> in \<open>[0, 2^32 - 1]\<close> these
  four bytes are exactly the bytes of \<open>v\<close>.  A raw value that is not an integer is
  returned as its string form.  The sensor stores what the decoder returns.
\<close>

theorem firmware_decode:
  "format_version (RInt v) =
     str_nat (nat (v div 2 ^ 24 mod 256)) @ ''.'' @ str_nat (nat (v div 2 ^ 16 mod 256)) @ ''.''
     @ str_nat (nat (v div 2 ^ 8 mod 256)) @ ''.'' @ str_nat (nat (v mod 256))
   \<and> (0 \<le> v \<and> v < 2 ^ 32 \<longrightarrow>
        v = 2 ^ 24 * (v div 2 ^ 24 mod 256) + 2 ^ 16 * (v div 2 ^ 16 mod 256)
            + 2 ^ 8 * (v div 2 ^ 8 mod 256) + v mod 256)
   \<and> format_version RNone = py_str RNone
   \<and> format_version (RStr x) = x
   \<and> (result ATTR_CURRENT_FILE_VERSION = Some version \<longrightarrow>
        fw_native_value (entity_after (update_firmware_version (ReadOk result) s))
          = format_version version)"
proof -
  have other: "format_version RNone = py_str RNone" "format_version (RStr x) = x"
    by (simp_all add: format_version_def)
  have stored: "fw_native_value (entity_after (update_firmware_version (ReadOk result) s))
          = format_version version" if "result ATTR_CURRENT_FILE_VERSION = Some version"
    using that by (simp add: update_firmware_version_def Let_def)
  show ?thesis
    using format_version_bytes[of v] bytes_recompose[of v] other stored by blast
qed

theorem firmware_decode_witness:
  "format_version (RInt 16909060) = ''1.2.3.4''
   \<and> (16909060 :: int) = 2 ^ 24 * 1 + 2 ^ 16 * 2 + 2 ^ 8 * 3 + 4
   \<and> fw_native_value (entity_after (update_firmware_version
        (ReadOk [ATTR_CURRENT_FILE_VERSION \<mapsto> RInt 16909060]) NimlyProFirmwareSensor_init))
      = ''1.2.3.4''"
  using firmware_decode[where v = 16909060
      and result = "[ATTR_CURRENT_FILE_VERSION \<mapsto> RInt 16909060]"
      and version = "RInt 16909060" and s = NimlyProFirmwareSensor_init]
  by (simp add: str_nat.simps digit_char_def)

section \<open>The selectors' labels\<close>

text \<open>
  C6.  For a selector (LED settings or sound volume) and every index \<open>i\<close> in \<open>[0, 3]\<close>:
  the entity whose current index is \<open>i\<close> shows the label the option table gives for
  \<open>i\<close>; selecting that label makes the entity look it up at position \<open>i\<close> and write
  \<open>i\<close> to the selector's attribute, whether the write returns or not; when the write
  returns, the current index is \<open>i\<close> and the label shown is the selected one; and a
  read that returns \<open>i\<close> shows that label again.
\<close>

theorem selector_roundtrip:
  assumes "0 \<le> i" and "i \<le> 3"
    and "attr_options t = attr_options NimlyProLEDSettingsSelect_init"
    and "attr_options u = attr_options NimlyProSoundVolumeSelect_init"
  shows "(\<exists>label. map_of LED_SETTINGS_OPTIONS i = Some label
            \<and> current_option (t\<lparr>current_option_index := i\<rparr>) = Inr label
            \<and> py_index (attr_options t) label = Inr i
            \<and> led_select_option label WriteOk t =
                 \<lparr>entity_after = t\<lparr>current_option_index := i\<rparr>,
                  effects = [WriteAttributes [(34, i)],
                             WriteHaState (t\<lparr>current_option_index := i\<rparr>)],
                  raised = None\<rparr>
            \<and> led_select_option label WriteFault t =
                 \<lparr>entity_after = t, effects = [WriteAttributes [(34, i)]], raised = None\<rparr>
            \<and> current_option (entity_after (led_select_option label WriteOk t)) = Inr label
            \<and> current_option (entity_after
                  (update_led_settings (ReadOk [ATTR_LED_SETTINGS \<mapsto> RInt i]) t)) = Inr label)
       \<and> (\<exists>label. map_of SOUND_VOLUME_OPTIONS i = Some label
            \<and> current_option (u\<lparr>current_option_index := i\<rparr>) = Inr label
            \<and> py_index (attr_options u) label = Inr i
            \<and> sound_select_option label WriteOk u =
                 \<lparr>entity_after = u\<lparr>current_option_index := i\<rparr>,
                  effects = [WriteAttributes [(36, i)],
                             WriteHaState (u\<lparr>current_option_index := i\<rparr>)],
                  raised = None\<rparr>
            \<and> sound_select_option label WriteFault u =
                 \<lparr>entity_after = u, effects = [WriteAttributes [(36, i)]], raised = None\<rparr>
            \<and> current_option (entity_after (sound_select_option label WriteOk u)) = Inr label
            \<and> current_option (entity_after
                  (update_sound_volume (ReadOk [ATTR_SOUND_VOLUME \<mapsto> RInt i]) u)) = Inr label)"
proof -
  from assms(1,2) have i: "i = 0 \<or> i = 1 \<or> i = 2 \<or> i = 3" by arith
  have t: "attr_options t = [''Off'', ''Low'', ''Medium'', ''High'']"
    using assms(3)
    by (simp add: NimlyProLEDSettingsSelect_init_def dict_values_def LED_SETTINGS_OPTIONS_def)
  have u: "attr_options u = [''Off'', ''Low'', ''Medium'', ''High'']"
    using assms(4)
    by (simp add: NimlyProSoundVolumeSelect_init_def dict_values_def SOUND_VOLUME_OPTIONS_def)
  have led: "\<exists>label. map_of LED_SETTINGS_OPTIONS i = Some label
            \<and> current_option (t\<lparr>current_option_index := i\<rparr>) = Inr label
            \<and> py_index (attr_options t) label = Inr i
            \<and> led_select_option label WriteOk t =
                 \<lparr>entity_after = t\<lparr>current_option_index := i\<rparr>,
                  effects = [WriteAttributes [(34, i)],
                             WriteHaState (t\<lparr>current_option_index := i\<rparr>)],
                  raised = None\<rparr>
            \<and> led_select_option label WriteFault t =
                 \<lparr>entity_after = t, effects = [WriteAttributes [(34, i)]], raised = None\<rparr>
            \<and> current_option (entity_after (led_select_option label WriteOk t)) = Inr label
            \<and> current_option (entity_after
                  (update_led_settings (ReadOk [ATTR_LED_SETTINGS \<mapsto> RInt i]) t)) = Inr label"
    using i t
    by (auto simp: current_option_def py_getitem_def LED_SETTINGS_OPTIONS_def
        led_select_option_def update_led_settings_def attr_ids Let_def)
  have sound: "\<exists>label. map_of SOUND_VOLUME_OPTIONS i = Some label
            \<and> current_option (u\<lparr>current_option_index := i\<rparr>) = Inr label
            \<and> py_index (attr_options u) label = Inr i
            \<and> sound_select_option label WriteOk u =
                 \<lparr>entity_after = u\<lparr>current_option_index := i\<rparr>,
                  effects = [WriteAttributes [(36, i)],
                             WriteHaState (u\<lparr>current_option_index := i\<rparr>)],
                  raised = None\<rparr>
            \<and> sound_select_option label WriteFault u =
                 \<lparr>entity_after = u, effects = [WriteAttributes [(36, i)]], raised = None\<rparr>
            \<and> current_option (entity_after (sound_select_option label WriteOk u)) = Inr label
            \<and> current_option (entity_after
                  (update_sound_volume (ReadOk [ATTR_SOUND_VOLUME \<mapsto> RInt i]) u)) = Inr label"
    using i u
    by (auto simp: current_option_def py_getitem_def SOUND_VOLUME_OPTIONS_def
        sound_select_option_def update_sound_volume_def attr_ids Let_def)
  from led sound show ?thesis by (rule conjI)
qed

theorem selector_roundtrip_witness:
  "current_option (NimlyProLEDSettingsSelect_init\<lparr>current_option_index := 2\<rparr>) = Inr ''Medium''
   \<and> py_index (attr_options NimlyProLEDSettingsSelect_init) ''Medium'' = Inr 2
   \<and> effects (led_select_option ''Medium'' WriteFault NimlyProLEDSettingsSelect_init)
       = [WriteAttributes [(34, 2)]]
   \<and> current_option_index (entity_after
        (sound_select_option ''Medium'' WriteOk NimlyProSoundVolumeSelect_init)) = 2"
  using selector_roundtrip[where i = 2 and t = NimlyProLEDSettingsSelect_init
      and u = NimlyProSoundVolumeSelect_init]
  by (simp add: current_option_def py_getitem_def NimlyProLEDSettingsSelect_init_def
      NimlyProSoundVolumeSelect_init_def dict_values_def LED_SETTINGS_OPTIONS_def
      SOUND_VOLUME_OPTIONS_def led_select_option_def sound_select_option_def attr_ids)

section \<open>Reconciliation by polling\<close>

text \<open>
  C1 (as amended).  For every entity, a poll whose read raises a communication fault
  leaves the current value unchanged, sets availability to false, and ends by publishing
  the state.  A poll whose read returns the attribute sets availability to true and ends
  by publishing the state; it sets the current value to the decoded raw value where the
  decoder has one (always for the lock, the door sensor and the firmware sensor; an
  index inside the option list for a selector; anything but \<^verbatim>\<open>None\<close> for the relock
  time) and leaves the current value unchanged otherwise.  A poll whose read omits the
  attribute ends by publishing the state as well.  (A selector handed a string is left
  out.)
\<close>

theorem reconcile_outcomes:
  "(current_value (entity_after (async_update ReadFault r_ev e)) = current_value e
      \<and> \<not> availability (entity_after (async_update ReadFault r_ev e))
      \<and> publishes_last (async_update ReadFault r_ev e)
      \<and> raised (async_update ReadFault r_ev e) = None)
   \<and> (result (attribute_of e) = Some v \<and> \<not> (is_selector e \<and> is_text v) \<longrightarrow>
        availability (entity_after (async_update (ReadOk result) r_ev e))
        \<and> current_value (entity_after (async_update (ReadOk result) r_ev e)) =
            (case spec_decode e v of Some d \<Rightarrow> d | None \<Rightarrow> current_value e)
        \<and> publishes_last (async_update (ReadOk result) r_ev e)
        \<and> raised (async_update (ReadOk result) r_ev e) = None)
   \<and> (result (attribute_of e) = None \<longrightarrow> publishes_last (async_update (ReadOk result) r_ev e))"
  using reconcile_fault[of r_ev e] reconcile_present[of result e v r_ev]
    reconcile_absent[of result e r_ev]
  by blast

theorem reconcile_outcomes_witness:
  "[ATTR_LOCK_STATE \<mapsto> RInt 1] (attribute_of (Lock NimlyProLock_init)) = Some (RInt 1)
   \<and> \<not> (is_selector (Lock NimlyProLock_init) \<and> is_text (RInt 1))
   \<and> current_value (entity_after (async_update (ReadOk [ATTR_LOCK_STATE \<mapsto> RInt 1]) ReadFault
        (Lock NimlyProLock_init))) = LockValue (Some STATE_LOCKED)
   \<and> availability (entity_after (async_update (ReadOk [ATTR_LOCK_STATE \<mapsto> RInt 1]) ReadFault
        (Lock NimlyProLock_init)))
   \<and> \<not> availability (entity_after (async_update ReadFault ReadFault (Lock NimlyProLock_init)))"
  using reconcile_outcomes[where e = "Lock NimlyProLock_init" and v = "RInt 1"
      and result = "[ATTR_LOCK_STATE \<mapsto> RInt 1]" and r_ev = ReadFault]
  by simp

text \<open>The claim as stated fails for a selector: a read that returns the attribute with
  index 7 leaves the index as it was, whatever it was.\<close>

theorem reconcile_sets_value_counterexample:
  "raised (update_led_settings (ReadOk [ATTR_LED_SETTINGS \<mapsto> RInt 7])
       (NimlyProLEDSettingsSelect_init\<lparr>current_option_index := 2\<rparr>)) = None
   \<and> current_option_index (entity_after (update_led_settings
        (ReadOk [ATTR_LED_SETTINGS \<mapsto> RInt 7])
        (NimlyProLEDSettingsSelect_init\<lparr>current_option_index := 2\<rparr>))) = 2
   \<and> current_option_index (entity_after (update_led_settings
        (ReadOk [ATTR_LED_SETTINGS \<mapsto> RInt 7]) NimlyProLEDSettingsSelect_init)) = 0"
  by (simp add: update_led_settings_def NimlyProLEDSettingsSelect_init_def dict_values_def
      LED_SETTINGS_OPTIONS_def Let_def)

text \<open>
  C9.  For every entity, a read that returns but omits the attribute asked for leaves
  the entity as it was, so the current value and availability keep their prior values,
  and the state is still published.  A poll turns availability from false to true only
  if the attribute is present in the response.
\<close>

theorem read_omitting_attribute:
  assumes "result (attribute_of e) = None"
  shows "current_value (entity_after (async_update (ReadOk result) r_ev e)) = current_value e
    \<and> availability (entity_after (async_update (ReadOk result) r_ev e)) = availability e
    \<and> publishes_last (async_update (ReadOk result) r_ev e)
    \<and> raised (async_update (ReadOk result) r_ev e) = None
    \<and> (availability (entity_after (async_update (ReadOk m) r_ev e)) \<and> \<not> availability e
          \<longrightarrow> m (attribute_of e) \<noteq> None)"
proof -
  have here: "entity_after (async_update (ReadOk result) r_ev e) = e
      \<and> publishes_last (async_update (ReadOk result) r_ev e)
      \<and> raised (async_update (ReadOk result) r_ev e) = None"
    using assms by (rule reconcile_absent)
  have "entity_after (async_update (ReadOk m) r_ev e) = e" if "m (attribute_of e) = None"
    using reconcile_absent[where result = m and e = e and r_ev = r_ev] that by simp
  then have only: "availability (entity_after (async_update (ReadOk m) r_ev e))
      \<and> \<not> availability e \<longrightarrow> m (attribute_of e) \<noteq> None"
    by (cases "m (attribute_of e)") auto
  have same: "current_value (entity_after (async_update (ReadOk result) r_ev e)) = current_value e"
    "availability (entity_after (async_update (ReadOk result) r_ev e)) = availability e"
    using here by simp_all
  show ?thesis
    using here same only by blast
qed

theorem read_omitting_attribute_witness:
  "Map.empty (attribute_of (Firmware (NimlyProFirmwareSensor_init\<lparr>fw_available := False\<rparr>))) = None
   \<and> \<not> availability (entity_after (async_update (ReadOk Map.empty) ReadFault
        (Firmware (NimlyProFirmwareSensor_init\<lparr>fw_available := False\<rparr>))))
   \<and> current_value (entity_after (async_update (ReadOk Map.empty) ReadFault
        (Firmware (NimlyProFirmwareSensor_init\<lparr>fw_available := False\<rparr>))))
      = TextValue ''Unknown''"
  using read_omitting_attribute[where e = "Firmware (NimlyProFirmwareSensor_init\<lparr>fw_available := False\<rparr>)"
      and result = Map.empty and r_ev = ReadFault and m = Map.empty]
  by (simp add: NimlyProFirmwareSensor_init_def)

section \<open>Availability over a sequence of calls\<close>

text \<open>
  C2 (as amended).  For every entity and every sequence of calls (whose reads hand no
  string to a selector), availability afterwards is what the polling reads say:
  false if the most recent read that raised a fault or returned the attribute raised a
  fault, true if it returned the attribute, and the starting value if there was none.
  Writes, whether they return or raise a communication fault, and pushes leave
  availability as it is.
\<close>

theorem availability_follows_reads:
  assumes "list_all (reads_typed (is_selector e) (attribute_of e)) cs"
  shows "availability (run cs e) = last_read_verdict (attribute_of e) cs (availability e)"
  using run_availability[OF assms] .

theorem availability_follows_reads_witness:
  "list_all (reads_typed (is_selector (Led NimlyProLEDSettingsSelect_init))
       (attribute_of (Led NimlyProLEDSettingsSelect_init)))
     [AsyncUpdate ReadFault ReadFault, AsyncSelectOption ''High'' WriteOk,
      AttributeUpdated 34 (RInt 1) ''t'']
   \<and> \<not> availability (run [AsyncUpdate ReadFault ReadFault, AsyncSelectOption ''High'' WriteOk,
        AttributeUpdated 34 (RInt 1) ''t''] (Led NimlyProLEDSettingsSelect_init))"
  using availability_follows_reads[where e = "Led NimlyProLEDSettingsSelect_init"
      and cs = "[AsyncUpdate ReadFault ReadFault, AsyncSelectOption ''High'' WriteOk,
        AttributeUpdated 34 (RInt 1) ''t'']"]
  by (simp add: NimlyProLEDSettingsSelect_init_def)

text \<open>The claim as stated fails: a write that raises a communication fault leaves
  availability true, and a write that returns after a failed read leaves it false.\<close>

theorem write_fault_availability_counterexample:
  "sel_available (entity_after
      (led_select_option ''High'' WriteFault NimlyProLEDSettingsSelect_init))
   \<and> num_available (entity_after
      (async_set_native_value (Finite 60) WriteFault NimlyProAutoRelockTime_init))
   \<and> \<not> sel_available (entity_after (led_select_option ''High'' WriteOk
        (entity_after (update_led_settings ReadFault NimlyProLEDSettingsSelect_init))))"
  by (simp add: led_select_option_def async_set_native_value_def update_led_settings_def
      NimlyProLEDSettingsSelect_init_def NimlyProAutoRelockTime_init_def dict_values_def
      LED_SETTINGS_OPTIONS_def Let_def)

section \<open>Writes\<close>

text \<open>
  C3.  For the lock, the selectors and the relock time, and every requested value for
  which the entity issues a remote write: if the write raises a communication fault, the
  entity is left as it was and nothing is published; if the write returns, the current
  value is the requested one (for a selector, the label shown is the requested label),
  the state is published last, and no read is issued.  The requests left out (a label
  that is not an option, a float that is not finite, a call the entity does not have)
  are those for which no remote write is issued at all.
\<close>

theorem write_atomicity:
  "(requested_value e c = Some d \<longrightarrow>
      (write_result c = Some WriteFault \<longrightarrow>
            entity_after (dispatch c e) = e
            \<and> \<not> list_ex is_publish (effects (dispatch c e))
            \<and> list_ex is_write (effects (dispatch c e))
            \<and> raised (dispatch c e) = None)
    \<and> (write_result c = Some WriteOk \<longrightarrow>
            current_value (entity_after (dispatch c e)) = d
            \<and> publishes_last (dispatch c e)
            \<and> \<not> list_ex is_read (effects (dispatch c e))
            \<and> list_ex is_write (effects (dispatch c e))
            \<and> raised (dispatch c e) = None))
    \<and> (requested_value e c = None \<longrightarrow> \<not> list_ex is_write (effects (dispatch c e)))
    \<and> (option \<in> set (attr_options t) \<longrightarrow>
            current_option (entity_after (led_select_option option WriteOk t)) = Inr option
            \<and> current_option (entity_after (sound_select_option option WriteOk t)) = Inr option)"
  using write_fault[of e c d] write_ok[of e c d] select_ok_label[of option t]
    no_request_no_write[of e c]
  by blast

theorem write_atomicity_witness:
  "requested_value (Led NimlyProLEDSettingsSelect_init) (AsyncSelectOption ''High'' WriteOk)
     = Some (IndexValue 3)
   \<and> current_value (entity_after (dispatch (AsyncSelectOption ''High'' WriteOk)
        (Led NimlyProLEDSettingsSelect_init))) = IndexValue 3
   \<and> ''High'' \<in> set (attr_options NimlyProLEDSettingsSelect_init)
   \<and> current_option (entity_after
        (led_select_option ''High'' WriteOk NimlyProLEDSettingsSelect_init)) = Inr ''High''"
  using write_atomicity[where e = "Led NimlyProLEDSettingsSelect_init"
      and c = "AsyncSelectOption ''High'' WriteOk" and d = "IndexValue 3"
      and option = "''High''" and t = NimlyProLEDSettingsSelect_init]
  by (simp add: NimlyProLEDSettingsSelect_init_def dict_values_def LED_SETTINGS_OPTIONS_def)

text \<open>
  C7 (as amended).  A selector asked for a label that is not in its option list raises
  \<^verbatim>\<open>ValueError\<close> to the caller before any remote write, and is left as it was.  The
  relock time does not check the requested value: for every finite value it issues the
  remote write of the truncated value and raises nothing.
\<close>

theorem request_validation:
  "(option \<notin> set (attr_options t) \<longrightarrow>
       led_select_option option w t
         = \<lparr>entity_after = t, effects = [], raised = Some ValueError\<rparr>
       \<and> sound_select_option option w t
         = \<lparr>entity_after = t, effects = [], raised = Some ValueError\<rparr>)
   \<and> raised (async_set_native_value (Finite q) w n) = None
   \<and> hd (effects (async_set_native_value (Finite q) w n))
       = WriteAttributes [(35, if 0 \<le> q then \<lfloor>q\<rfloor> else \<lceil>q\<rceil>)]"
  using select_invalid[of option t w] number_unvalidated[of q w n]
  by blast

theorem request_validation_witness:
  "''Bright'' \<notin> set (attr_options NimlyProLEDSettingsSelect_init)
   \<and> led_select_option ''Bright'' WriteOk NimlyProLEDSettingsSelect_init
       = \<lparr>entity_after = NimlyProLEDSettingsSelect_init, effects = [],
          raised = Some ValueError\<rparr>"
  using request_validation[where option = "''Bright''" and t = NimlyProLEDSettingsSelect_init
      and w = WriteOk]
  by (simp add: NimlyProLEDSettingsSelect_init_def dict_values_def LED_SETTINGS_OPTIONS_def)

text \<open>The claim as stated fails for the relock time: a request of 5000 seconds, outside
  the declared range, is written to the device and stored.\<close>

theorem number_validation_counterexample:
  "raised (async_set_native_value (Finite 5000) WriteOk NimlyProAutoRelockTime_init) = None
   \<and> hd (effects (async_set_native_value (Finite 5000) WriteOk NimlyProAutoRelockTime_init))
       = WriteAttributes [(35, 5000)]
   \<and> native_value (entity_after
       (async_set_native_value (Finite 5000) WriteOk NimlyProAutoRelockTime_init))
       = FromUser (Finite 5000)
   \<and> native_max_value NimlyProAutoRelockTime_init = 3600"
  by (simp add: async_set_native_value_def NimlyProAutoRelockTime_init_def attr_ids Let_def)

section \<open>Selector indices\<close>

text \<open>
  C5.  For a selector with its four options and every integer index: neither a read that
  returns the index nor a push of the index raises; an index outside \<open>[0, 3]\<close> leaves
  the current index unchanged (the push leaves the whole entity unchanged); an index
  inside \<open>[0, 3]\<close> becomes the current index.
\<close>

theorem selector_index_guard:
  assumes "e = Led s \<or> e = Sound s" and "length (attr_options s) = 4"
    and "result (attribute_of e) = Some (RInt v)" and "int16 (attribute_of e) = Some a"
  shows "raised (async_update (ReadOk result) r_ev e) = None
    \<and> raised (attribute_updated a (RInt v) now e) = None
    \<and> (v < 0 \<or> 3 < v \<longrightarrow>
          current_value (entity_after (async_update (ReadOk result) r_ev e)) = current_value e
          \<and> entity_after (attribute_updated a (RInt v) now e) = e)
    \<and> (0 \<le> v \<and> v \<le> 3 \<longrightarrow>
          current_value (entity_after (async_update (ReadOk result) r_ev e)) = IndexValue v
          \<and> current_value (entity_after (attribute_updated a (RInt v) now e)) = IndexValue v)"
  using selector_index_read[where e = e and s = s and result = result and v = v and r_ev = r_ev]
    selector_index_push[where e = e and s = s and a = a and v = v and now = now] assms
  by blast

theorem selector_index_guard_witness:
  "length (attr_options NimlyProSoundVolumeSelect_init) = 4
   \<and> int16 (attribute_of (Sound NimlyProSoundVolumeSelect_init)) = Some 36
   \<and> current_value (entity_after (async_update (ReadOk [ATTR_SOUND_VOLUME \<mapsto> RInt 7]) ReadFault
        (Sound NimlyProSoundVolumeSelect_init))) = IndexValue 0
   \<and> entity_after (attribute_updated 36 (RInt 7) ''t'' (Sound NimlyProSoundVolumeSelect_init))
       = Sound NimlyProSoundVolumeSelect_init"
  using selector_index_guard[where e = "Sound NimlyProSoundVolumeSelect_init"
      and s = NimlyProSoundVolumeSelect_init and v = 7 and a = 36
      and result = "[ATTR_SOUND_VOLUME \<mapsto> RInt 7]" and r_ev = ReadFault and now = "''t''"]
  by (simp add: NimlyProSoundVolumeSelect_init_def dict_values_def SOUND_VOLUME_OPTIONS_def
      attr_ids)

section \<open>The range of the relock time\<close>

text \<open>
  C8 (as amended).  The relock time declares the bounds 0 and 3600 and starts at 30,
  inside them.  It does not clamp: every call stores the value it delivers as it is and
  leaves the declared bounds alone.  So the stored value stays within the declared
  bounds over every sequence of calls all of whose delivered values lie within them.
\<close>

theorem relock_bounds_preserved:
  "within_bounds NimlyProAutoRelockTime_init
   \<and> native_min_value NimlyProAutoRelockTime_init = 0
   \<and> native_max_value NimlyProAutoRelockTime_init = 3600
   \<and> (\<exists>s'. entity_after (dispatch c (Relock s)) = Relock s'
         \<and> native_value s' = (case delivered c of None \<Rightarrow> native_value s | Some x \<Rightarrow> x)
         \<and> native_min_value s' = native_min_value s
         \<and> native_max_value s' = native_max_value s)
   \<and> (within_bounds s
        \<and> list_all (delivers_within (native_min_value s) (native_max_value s)) cs \<longrightarrow>
        (\<exists>s'. run cs (Relock s) = Relock s' \<and> within_bounds s'
           \<and> native_min_value s' = native_min_value s
           \<and> native_max_value s' = native_max_value s))"
proof -
  have "within_bounds NimlyProAutoRelockTime_init"
    "native_min_value NimlyProAutoRelockTime_init = 0"
    "native_max_value NimlyProAutoRelockTime_init = 3600"
    by (simp_all add: within_bounds_def NimlyProAutoRelockTime_init_def
        DEFAULT_AUTO_RELOCK_TIME_def)
  then show ?thesis
    using relock_step[of c s] relock_run[of s cs] by blast
qed

theorem relock_bounds_preserved_witness:
  "list_all (delivers_within 0 3600)
     [AsyncUpdate (ReadOk [ATTR_AUTO_RELOCK_TIME \<mapsto> RInt 120]) ReadFault,
      AsyncSetNativeValue (Finite 45) WriteOk, AttributeUpdated 35 (RInt 3600) ''t'']
   \<and> (\<exists>s'. run [AsyncUpdate (ReadOk [ATTR_AUTO_RELOCK_TIME \<mapsto> RInt 120]) ReadFault,
               AsyncSetNativeValue (Finite 45) WriteOk, AttributeUpdated 35 (RInt 3600) ''t'']
              (Relock NimlyProAutoRelockTime_init) = Relock s'
         \<and> within_bounds s')"
proof -
  let ?cs = "[AsyncUpdate (ReadOk [ATTR_AUTO_RELOCK_TIME \<mapsto> RInt 120]) ReadFault,
      AsyncSetNativeValue (Finite 45) WriteOk, AttributeUpdated 35 (RInt 3600) ''t'']"
  have h: "list_all (delivers_within 0 3600) ?cs"
    by (simp add: delivers_within_def attr_ids)
  have b: "native_min_value NimlyProAutoRelockTime_init = 0"
    "native_max_value NimlyProAutoRelockTime_init = 3600"
    by (simp_all add: NimlyProAutoRelockTime_init_def)
  from relock_bounds_preserved[where s = NimlyProAutoRelockTime_init and cs = ?cs] h
  have "\<exists>s'. run ?cs (Relock NimlyProAutoRelockTime_init) = Relock s' \<and> within_bounds s'"
    unfolding b by blast
  with h show ?thesis by blast
qed

text \<open>The claim as stated fails: a read of 5000 and a push of -1 are stored as they
  are, outside the declared bounds.\<close>

theorem relock_clamp_counterexample:
  "native_value (entity_after (update_auto_relock_time
       (ReadOk [ATTR_AUTO_RELOCK_TIME \<mapsto> RInt 5000]) NimlyProAutoRelockTime_init))
     = FromDevice (RInt 5000)
   \<and> \<not> within_bounds (entity_after (update_auto_relock_time
       (ReadOk [ATTR_AUTO_RELOCK_TIME \<mapsto> RInt 5000]) NimlyProAutoRelockTime_init))
   \<and> native_value (entity_after
       (relock_attribute_updated 35 (RInt (- 1)) NimlyProAutoRelockTime_init))
     = FromDevice (RInt (- 1))"
  by (simp add: update_auto_relock_time_def relock_attribute_updated_def within_bounds_def
      NimlyProAutoRelockTime_init_def attr_ids Let_def)

section \<open>The lock's first state\<close>

text \<open>
  C10.  A new lock entity stores no state and \<^verbatim>\<open>is_locked\<close> is false, and this stays
  so over every sequence of calls none of which reaches the stored state (no read that
  returns the lock state, no push of it, no lock or unlock command that returns).  Over
  every sequence of calls the stored state is absent, locked or unlocked, and
  \<^verbatim>\<open>is_locked\<close> is true exactly when it is the locked state.
\<close>

theorem lock_initially_unlocked:
  "lock_state NimlyProLock_init = None
   \<and> \<not> is_locked NimlyProLock_init
   \<and> (\<not> list_ex reaches_lock_state cs \<longrightarrow>
        (\<exists>s. run cs (Lock NimlyProLock_init) = Lock s \<and> lock_state s = None \<and> \<not> is_locked s))
   \<and> (\<exists>s. run cs (Lock NimlyProLock_init) = Lock s
         \<and> (lock_state s = None \<or> lock_state s = Some STATE_LOCKED
              \<or> lock_state s = Some STATE_UNLOCKED)
         \<and> is_locked s = (lock_state s = Some STATE_LOCKED))
   \<and> is_locked t = (lock_state t = Some STATE_LOCKED)
   \<and> STATE_LOCKED \<noteq> STATE_UNLOCKED"
proof -
  have init: "lock_state NimlyProLock_init = None" "\<not> is_locked NimlyProLock_init"
    by (simp_all add: NimlyProLock_init_def is_locked_def)
  have quiet: "\<exists>s. run cs (Lock NimlyProLock_init) = Lock s \<and> lock_state s = None
      \<and> \<not> is_locked s" if "\<not> list_ex reaches_lock_state cs"
    using lock_run_quiet[OF that, of NimlyProLock_init] init(1) by (auto simp: is_locked_def)
  have any: "\<exists>s. run cs (Lock NimlyProLock_init) = Lock s
         \<and> (lock_state s = None \<or> lock_state s = Some STATE_LOCKED
              \<or> lock_state s = Some STATE_UNLOCKED)
         \<and> is_locked s = (lock_state s = Some STATE_LOCKED)"
    using lock_run_states[of cs NimlyProLock_init] init(1) by (auto simp: is_locked_def)
  have "STATE_LOCKED \<noteq> STATE_UNLOCKED"
    by (simp add: STATE_LOCKED_def STATE_UNLOCKED_def)
  with init quiet any show ?thesis
    by (simp add: is_locked_def)
qed

theorem lock_initially_unlocked_witness:
  "\<not> list_ex reaches_lock_state
       [AsyncUpdate ReadFault ReadFault, AsyncLock WriteFault, AsyncUpdate (ReadOk Map.empty) ReadFault]
   \<and> (\<exists>s. run [AsyncUpdate ReadFault ReadFault, AsyncLock WriteFault,
              AsyncUpdate (ReadOk Map.empty) ReadFault] (Lock NimlyProLock_init) = Lock s
         \<and> lock_state s = None \<and> \<not> is_locked s)"
proof -
  let ?cs = "[AsyncUpdate ReadFault ReadFault, AsyncLock WriteFault,
      AsyncUpdate (ReadOk Map.empty) ReadFault]"
  have h: "\<not> list_ex reaches_lock_state ?cs" by simp
  from lock_initially_unlocked[where cs = ?cs] h
  have "\<exists>s. run ?cs (Lock NimlyProLock_init) = Lock s \<and> lock_state s = None \<and> \<not> is_locked s"
    by blast
  with h show ?thesis by blast
qed

end
